theory Spec2Isabelle
  imports Complex_Main
begin

section \<open>Python values used by the driver\<close>

subsection \<open>Exceptions\<close>

text \<open>
  The exception classes that occur in the three source files, and the ones the
  external transport or the caller's body can raise.  \<open>AssertionError\<close> and
  \<open>AttributeError\<close> carry the message written in the source; \<open>ValueError\<close> is raised by
  builtins (tuple unpacking, \<open>float\<close>, \<open>int\<close>, \<open>Enum\<close> lookup by value) and its message text is
  not modelled.  \<open>SCPIError\<close> and \<open>OSError\<close> come from the transport, \<open>KeyboardInterrupt\<close>
  stands for an interruption of the caller's body.
\<close>

datatype exn =
    AssertionError string
  | AttributeError string
  | ValueError
  | SCPIError string
  | OSError string
  | KeyboardInterrupt

subsection \<open>Decimal text of integers\<close>

definition digit_char :: "nat \<Rightarrow> char" where
  "digit_char n = ''0123456789'' ! (n mod 10)"

fun string_of_nat :: "nat \<Rightarrow> string" where
  "string_of_nat n =
     (if n < 10 then [digit_char n] else string_of_nat (n div 10) @ [digit_char n])"

declare string_of_nat.simps [simp del]

text \<open>\<open>str(i)\<close> for a Python int, as an f-string field \<open>{i}\<close> renders it.\<close>

definition str_int :: "int \<Rightarrow> string" where
  "str_int i = (if i < 0 then ''-'' @ string_of_nat (nat (- i)) else string_of_nat (nat i))"

subsection \<open>Floats and the format specification \<open>.3f\<close>\<close>

text \<open>
  A Python float is an IEEE binary64 value: a finite one is a sign and a rational
  magnitude (so that \<open>-0.0\<close> is a value of its own), the others are the two infinities and
  NaN.
\<close>

datatype pyfloat = Finite bool rat | Infinity bool | NaN

definition round_half_even :: "rat \<Rightarrow> int" where
  "round_half_even q =
     (let f = \<lfloor>q\<rfloor>; r = q - of_int f
      in if r < 1 / 2 then f else if 1 / 2 < r then f + 1 else if even f then f else f + 1)"

definition sign_text :: "bool \<Rightarrow> string" where
  "sign_text neg = (if neg then ''-'' else '''')"

definition fixed3 :: "nat \<Rightarrow> string" where
  "fixed3 n =
     string_of_nat (n div 1000) @ ''.'' @
     [digit_char (n div 100), digit_char (n div 10), digit_char n]"

text \<open>
  \<open>format(x, ".3f")\<close>: the exact value of the float, rounded correctly to three decimals
  (ties to even), with the sign kept even when the digits are all zero.
\<close>

fun format_3f :: "pyfloat \<Rightarrow> string" where
  "format_3f (Finite neg m) = sign_text neg @ fixed3 (nat (round_half_even (m * 1000)))"
| "format_3f (Infinity neg) = sign_text neg @ ''inf''"
| "format_3f NaN = ''nan''"

subsection \<open>Truthiness\<close>

text \<open>
  The values that reach a conditional expression \<open>'1' if enabled else '0'\<close> in the
  source: a bool, or a string (empty strings are false, all others true).
\<close>

datatype pyval = PyBool bool | PyStr string

fun truthy :: "pyval \<Rightarrow> bool" where
  "truthy (PyBool b) = b"
| "truthy (PyStr s) = (s \<noteq> [])"

section \<open>The transport\<close>

text \<open>
  \<open>SCPIClient\<close> belongs to the external package \<open>tcp_scpi\<close>.  The driver uses two of its
  methods, \<open>send(cmd)\<close> and \<open>query(cmd)\<close>; either may raise.  The client is modelled by the
  instrument behind it: a state \<open>'d\<close> and two functions that say how a command changes that
  state and whether the call raises.  The link keeps, besides the instrument's state, the
  list of requests handed to the client so far, oldest first.
\<close>

datatype request = Send string | Query string

record 'd SCPIClient =
  on_send :: "string \<Rightarrow> 'd \<Rightarrow> exn option \<times> 'd"
  on_query :: "string \<Rightarrow> 'd \<Rightarrow> (exn + string) \<times> 'd"

record 'd link =
  wire :: "request list"
  device :: 'd

text \<open>
  A statement of the driver is a function from the link to an outcome (an exception or a
  value) and the link afterwards: a raise does not undo what was sent before it.
\<close>

type_synonym ('a, 'd) action = "'d link \<Rightarrow> (exn + 'a) \<times> 'd link"

definition act_return :: "'a \<Rightarrow> ('a, 'd) action" where
  "act_return v s = (Inr v, s)"

definition act_raise :: "exn \<Rightarrow> ('a, 'd) action" where
  "act_raise e s = (Inl e, s)"

definition act_bind :: "('a, 'd) action \<Rightarrow> ('a \<Rightarrow> ('b, 'd) action) \<Rightarrow> ('b, 'd) action" where
  "act_bind m f s = (case m s of (Inl e, s') \<Rightarrow> (Inl e, s') | (Inr v, s') \<Rightarrow> f v s')"

definition act_seq :: "('a, 'd) action \<Rightarrow> ('b, 'd) action \<Rightarrow> ('b, 'd) action" where
  "act_seq m n = act_bind m (\<lambda>_. n)"

text \<open>
  \<open>try: m finally: c\<close>.  The cleanup runs on every outcome of \<open>m\<close>; when the cleanup itself
  raises, its exception replaces the outcome of \<open>m\<close>.
\<close>

definition act_finally :: "('a, 'd) action \<Rightarrow> (unit, 'd) action \<Rightarrow> ('a, 'd) action" where
  "act_finally m c s =
     (case m s of (r, s') \<Rightarrow>
        (case c s' of (Inl e, s'') \<Rightarrow> (Inl e, s'') | (Inr _, s'') \<Rightarrow> (r, s'')))"

definition scpi_send :: "'d SCPIClient \<Rightarrow> string \<Rightarrow> (unit, 'd) action" where
  "scpi_send scpi cmd s =
     (case on_send scpi cmd (device s) of (r, d') \<Rightarrow>
        ((case r of None \<Rightarrow> Inr () | Some e \<Rightarrow> Inl e),
         \<lparr>wire = wire s @ [Send cmd], device = d'\<rparr>))"

definition scpi_query :: "'d SCPIClient \<Rightarrow> string \<Rightarrow> (string, 'd) action" where
  "scpi_query scpi cmd s =
     (case on_query scpi cmd (device s) of (r, d') \<Rightarrow>
        (r, \<lparr>wire = wire s @ [Query cmd], device = d'\<rparr>))"

definition act_of :: "exn + 'a \<Rightarrow> ('a, 'd) action" where
  "act_of r s = (r, s)"

section \<open>Strings: \<open>split\<close> and \<open>float\<close>\<close>

text \<open>
  \<open>s.split(c)\<close> with a separator of one character: every occurrence separates, so the
  result has one more part than \<open>s\<close> has separators and is never empty.
\<close>

fun split_on :: "char \<Rightarrow> string \<Rightarrow> string list" where
  "split_on c [] = [[]]"
| "split_on c (x # xs) =
     (if x = c then [] # split_on c xs
      else (let ps = split_on c xs in (x # hd ps) # tl ps))"

text \<open>\<open>s.split(c, maxsplit=1)\<close>: one part, or the text before and after the first \<open>c\<close>.\<close>

definition split_once :: "char \<Rightarrow> string \<Rightarrow> string list" where
  "split_once c s =
     (if c \<in> set s then [takeWhile (\<lambda>x. x \<noteq> c) s, tl (dropWhile (\<lambda>x. x \<noteq> c) s)] else [s])"

text \<open>
  \<open>float(s)\<close> on ASCII text, after CPython: blanks (the space and the five control
  characters tab, line feed, vertical tab, form feed, carriage return) are stripped at both
  ends, single
  underscores between digits are dropped, then the text must be a sign and \<open>inf\<close>,
  \<open>infinity\<close> or \<open>nan\<close> in any case, or a sign and a decimal number (digits, an optional
  point and more digits, at least one digit in all, an optional exponent).  The decimal
  value is rounded to the nearest binary64 value, ties to the even significand, and
  becomes an infinity when it is too large.  Anything else raises \<open>ValueError\<close>.
\<close>

definition is_space :: "char \<Rightarrow> bool" where
  "is_space c \<longleftrightarrow>
     c \<in> set [CHR '' '', CHR 0x09, CHR 0x0A, CHR 0x0B, CHR 0x0C, CHR 0x0D]"

definition strip :: "string \<Rightarrow> string" where
  "strip s = rev (dropWhile is_space (rev (dropWhile is_space s)))"

definition is_digit :: "char \<Rightarrow> bool" where
  "is_digit c \<longleftrightarrow> c \<in> set ''0123456789''"

definition digit_val :: "char \<Rightarrow> nat" where
  "digit_val c = of_char c - 48"

definition nat_of_digits :: "string \<Rightarrow> nat" where
  "nat_of_digits ds = foldl (\<lambda>n c. 10 * n + digit_val c) 0 ds"

fun drop_underscores :: "char \<Rightarrow> string \<Rightarrow> string option" where
  "drop_underscores prev [] = (if prev = CHR ''_'' then None else Some [])"
| "drop_underscores prev (c # cs) =
     (if c = CHR ''_'' then (if is_digit prev then drop_underscores c cs else None)
      else if prev = CHR ''_'' \<and> \<not> is_digit c then None
      else map_option ((#) c) (drop_underscores c cs))"

definition lower :: "char \<Rightarrow> char" where
  "lower c =
     (let n = (of_char c :: nat) in if 65 \<le> n \<and> n \<le> 90 then char_of (n + 32) else c)"

definition split_sign :: "string \<Rightarrow> bool \<times> string" where
  "split_sign s =
     (case s of
        c # r \<Rightarrow> if c = CHR ''-'' then (True, r) else if c = CHR ''+'' then (False, r)
                 else (False, s)
      | [] \<Rightarrow> (False, s))"

definition parse_exponent :: "string \<Rightarrow> int option" where
  "parse_exponent s =
     (case s of
        [] \<Rightarrow> Some 0
      | c # r \<Rightarrow>
          if c = CHR ''e'' \<or> c = CHR ''E'' then
            (case split_sign r of (neg, ds) \<Rightarrow>
               if ds \<noteq> [] \<and> list_all is_digit ds
               then Some (if neg then - int (nat_of_digits ds) else int (nat_of_digits ds))
               else None)
          else None)"

definition scale10 :: "rat \<Rightarrow> int \<Rightarrow> rat" where
  "scale10 q e = (if 0 \<le> e then q * 10 ^ nat e else q / 10 ^ nat (- e))"

definition parse_decimal :: "string \<Rightarrow> rat option" where
  "parse_decimal s =
     (let ip = takeWhile is_digit s; r1 = dropWhile is_digit s;
          (fp, r2) = (case r1 of
                        c # t \<Rightarrow> if c = CHR ''.'' then (takeWhile is_digit t, dropWhile is_digit t)
                                 else ([], r1)
                      | [] \<Rightarrow> ([], r1))
      in if ip = [] \<and> fp = [] then None
         else (case parse_exponent r2 of
                 None \<Rightarrow> None
               | Some e \<Rightarrow> Some (scale10 (of_nat (nat_of_digits (ip @ fp))) (e - int (length fp)))))"

subsection \<open>Rounding to binary64\<close>

fun bit_length :: "nat \<Rightarrow> nat" where
  "bit_length n = (if n = 0 then 0 else Suc (bit_length (n div 2)))"

declare bit_length.simps [simp del]

definition pow2 :: "int \<Rightarrow> rat" where
  "pow2 e = (if 0 \<le> e then 2 ^ nat e else 1 / 2 ^ nat (- e))"

text \<open>For \<open>q > 0\<close>, the exponent \<open>e\<close> with \<open>2 ^ e \<le> q < 2 ^ (e + 1)\<close>.\<close>

definition floor_log2 :: "rat \<Rightarrow> int" where
  "floor_log2 q =
     (case quotient_of q of (a, b) \<Rightarrow>
        (let d = int (bit_length (nat a)) - int (bit_length (nat b))
         in if pow2 d \<le> q then d else d - 1))"

text \<open>
  The spacing of binary64 values around \<open>q > 0\<close>: 53 significant bits, and never
  finer than the subnormal spacing \<open>2 ^ -1074\<close>.
\<close>

definition ulp :: "rat \<Rightarrow> rat" where
  "ulp q = pow2 (max (floor_log2 q - 52) (- 1074))"

text \<open>
  The binary64 value nearest to a magnitude \<open>q \<ge> 0\<close>; \<open>None\<close> when the rounded value
  would reach \<open>2 ^ 1024\<close>, where binary64 has only the infinity left.
\<close>

definition binary64 :: "rat \<Rightarrow> rat option" where
  "binary64 q =
     (if q = 0 then Some 0
      else (let y = of_int (round_half_even (q / ulp q)) * ulp q
            in if y < pow2 1024 then Some y else None))"

definition float_of_magnitude :: "bool \<Rightarrow> rat \<Rightarrow> pyfloat" where
  "float_of_magnitude neg q =
     (case binary64 q of None \<Rightarrow> Infinity neg | Some y \<Rightarrow> Finite neg y)"

definition py_float :: "string \<Rightarrow> exn + pyfloat" where
  "py_float s =
     (case (let t = strip s in if CHR ''_'' \<in> set t then drop_underscores (CHR 0x00) t else Some t) of
        None \<Rightarrow> Inl ValueError
      | Some t \<Rightarrow>
          (case split_sign t of (neg, body) \<Rightarrow>
             (let word = map lower body
              in if word = ''inf'' \<or> word = ''infinity'' then Inr (Infinity neg)
                 else if word = ''nan'' then Inr NaN
                 else (case parse_decimal body of
                         None \<Rightarrow> Inl ValueError
                       | Some q \<Rightarrow> Inr (float_of_magnitude neg q)))))"

text \<open>
  \<open>int(s)\<close> in base ten on ASCII text: blanks stripped, a sign, then digits with single
  underscores allowed between them.  A text of more than 4300 digits raises \<open>ValueError\<close>
  (the default of \<open>sys.set_int_max_str_digits\<close>).
\<close>

definition py_int :: "string \<Rightarrow> exn + int" where
  "py_int s =
     (case split_sign (strip s) of (neg, body) \<Rightarrow>
        (case drop_underscores (CHR 0x00) body of
           None \<Rightarrow> Inl ValueError
         | Some ds \<Rightarrow>
             if ds \<noteq> [] \<and> list_all is_digit ds \<and> length ds \<le> 4300
             then Inr (if neg then - int (nat_of_digits ds) else int (nat_of_digits ds))
             else Inl ValueError))"

text \<open>\<open>sep.join(parts)\<close>.\<close>

fun join :: "string \<Rightarrow> string list \<Rightarrow> string" where
  "join sep [] = []"
| "join sep [p] = p"
| "join sep (p # q # ps) = p @ sep @ join sep (q # ps)"

text \<open>\<open>enumerate(xs, start=1)\<close>.\<close>

definition enumerate1 :: "'a list \<Rightarrow> (int \<times> 'a) list" where
  "enumerate1 xs = zip (map int [1..<Suc (length xs)]) xs"

section \<open>Enumerations\<close>

text \<open>
  A Python \<open>Enum\<close> class body is a list of names with values, in the order written.
  Calling the class with a value returns the first name that has this value and raises
  \<open>ValueError\<close> when no name has it; a later name with a value already taken is an alias:
  it denotes the member of the first name.
\<close>

definition enum_call :: "('n \<times> string) list \<Rightarrow> string \<Rightarrow> exn + 'n" where
  "enum_call body v =
     (case find (\<lambda>(n, w). w = v) body of None \<Rightarrow> Inl ValueError | Some (n, w) \<Rightarrow> Inr n)"

definition enum_value :: "('n \<times> string) list \<Rightarrow> 'n \<Rightarrow> string" where
  "enum_value body n = (case find (\<lambda>(m, w). m = n) body of Some (m, w) \<Rightarrow> w | None \<Rightarrow> [])"

text \<open>The member a name of the class body denotes.\<close>

definition enum_member :: "('n \<times> string) list \<Rightarrow> 'n \<Rightarrow> exn + 'n" where
  "enum_member body n = enum_call body (enum_value body n)"

datatype OutputMode = ConstantVoltage | ConstantCurrent | Unregulated

definition OutputMode_body :: "(OutputMode \<times> string) list" where
  "OutputMode_body =
     [(ConstantVoltage, ''CV''), (ConstantCurrent, ''CV''), (Unregulated, ''UR'')]"

datatype AnalysisType = Common | PulseCurrent

definition AnalysisType_body :: "(AnalysisType \<times> string) list" where
  "AnalysisType_body = [(Common, ''COM''), (PulseCurrent, ''CURR'')]"

datatype CommonAnalysisType = Voltage | Current | Power

definition CommonAnalysisType_body :: "(CommonAnalysisType \<times> string) list" where
  "CommonAnalysisType_body = [(Voltage, ''V''), (Current, ''C''), (Power, ''P'')]"

section \<open>channel.py\<close>

datatype Measurement = Measurement pyfloat pyfloat pyfloat

datatype Output = Output (voltage: pyfloat) (current: pyfloat)

subsection \<open>OverProtectiveParent\<close>

record 'd OverProtectiveParent =
  opp_channel :: int
  protecting :: string
  opp_scpi :: "'d SCPIClient"

definition source_id :: "'d OverProtectiveParent \<Rightarrow> string" where
  "source_id self = '':SOURCe['' @ str_int (opp_channel self) @ '']''"

definition prot_prefix :: "'d OverProtectiveParent \<Rightarrow> string" where
  "prot_prefix self = source_id self @ '':'' @ protecting self @ '':PROT''"

definition state_getter :: "'d OverProtectiveParent \<Rightarrow> (bool, 'd) action" where
  "state_getter self =
     act_bind (scpi_query (opp_scpi self) (prot_prefix self @ '':STAT?''))
       (\<lambda>r. act_return (r = ''1''))"

definition state_setter :: "'d OverProtectiveParent \<Rightarrow> bool \<Rightarrow> (unit, 'd) action" where
  "state_setter self v =
     scpi_send (opp_scpi self) (prot_prefix self @ '':STAT '' @ (if v then ''ON'' else ''OFF''))"

definition level_getter :: "'d OverProtectiveParent \<Rightarrow> (pyfloat, 'd) action" where
  "level_getter self =
     act_bind (scpi_query (opp_scpi self) (prot_prefix self @ ''?''))
       (\<lambda>r. act_of (py_float r))"

definition level_setter :: "'d OverProtectiveParent \<Rightarrow> pyfloat \<Rightarrow> (unit, 'd) action" where
  "level_setter self v = scpi_send (opp_scpi self) (prot_prefix self @ '' '' @ format_3f v)"

definition tripped :: "'d OverProtectiveParent \<Rightarrow> (bool, 'd) action" where
  "tripped self =
     act_bind (scpi_query (opp_scpi self) (prot_prefix self @ '':TRIP?''))
       (\<lambda>r. act_return (r = ''1''))"

definition clear :: "'d OverProtectiveParent \<Rightarrow> (unit, 'd) action" where
  "clear self = scpi_send (opp_scpi self) (prot_prefix self @ '':CLE'')"

text \<open>
  \<open>with self(level): body\<close>.  The context manager is a generator with one \<open>yield\<close> inside
  \<open>try ... finally\<close>: the body runs at the \<open>yield\<close>, an exception of the body is raised
  there, and the \<open>finally\<close> block runs however the \<open>try\<close> block is left, also when a
  statement before the \<open>yield\<close> raises (the body is then not run).
\<close>

definition OverProtectiveParent_call ::
  "'d OverProtectiveParent \<Rightarrow> pyfloat \<Rightarrow> ('a, 'd) action \<Rightarrow> ('a, 'd) action" where
  "OverProtectiveParent_call self level body =
     act_finally
       (act_seq (clear self)
          (act_seq (level_setter self level)
             (act_seq (state_setter self True) body)))
       (state_setter self False)"

subsection \<open>Channel\<close>

record 'd Channel =
  channel :: int
  scpi :: "'d SCPIClient"

definition ocp :: "'d Channel \<Rightarrow> 'd OverProtectiveParent" where
  "ocp self = \<lparr>opp_channel = channel self, protecting = ''CURRent'', opp_scpi = scpi self\<rparr>"

definition ovp :: "'d Channel \<Rightarrow> 'd OverProtectiveParent" where
  "ovp self = \<lparr>opp_channel = channel self, protecting = ''VOLTage'', opp_scpi = scpi self\<rparr>"

definition output_getter :: "'d Channel \<Rightarrow> (Output, 'd) action" where
  "output_getter self =
     act_bind (scpi_query (scpi self) ('':APPL? CH'' @ str_int (channel self)))
       (\<lambda>response.
          case split_once CHR '':'' response of
            [_, response'] \<Rightarrow>
              (case split_on CHR '','' response' of
                 [_, set_voltage, set_current] \<Rightarrow>
                   act_bind (act_of (py_float set_voltage))
                     (\<lambda>v. act_bind (act_of (py_float set_current))
                        (\<lambda>c. act_return (Output v c)))
               | _ \<Rightarrow> act_raise ValueError)
          | _ \<Rightarrow> act_raise ValueError)"

definition output_setter :: "'d Channel \<Rightarrow> Output \<Rightarrow> (unit, 'd) action" where
  "output_setter self output =
     scpi_send (scpi self)
       ('':APPL CH'' @ str_int (channel self) @ '','' @ format_3f (voltage output) @ '','' @
        format_3f (current output))"

definition probe :: "'d Channel \<Rightarrow> (Measurement, 'd) action" where
  "probe self =
     act_bind (scpi_query (scpi self) (''MEAS:ALL? CH'' @ str_int (channel self)))
       (\<lambda>response.
          case split_on CHR '','' response of
            [voltage', current', power'] \<Rightarrow>
              act_bind (act_of (py_float voltage'))
                (\<lambda>v. act_bind (act_of (py_float current'))
                   (\<lambda>c. act_bind (act_of (py_float power'))
                      (\<lambda>p. act_return (Measurement v c p))))
          | _ \<Rightarrow> act_raise ValueError)"

definition enabled_getter :: "'d Channel \<Rightarrow> (bool, 'd) action" where
  "enabled_getter self =
     act_bind (scpi_query (scpi self) ('':OUTP? CH'' @ str_int (channel self)))
       (\<lambda>r. act_return (r = ''1''))"

definition enabled_setter :: "'d Channel \<Rightarrow> bool \<Rightarrow> (unit, 'd) action" where
  "enabled_setter self v =
     scpi_send (scpi self)
       ('':OUTP CH'' @ str_int (channel self) @ '','' @ (if v then ''ON'' else ''OFF''))"

definition enable :: "'d Channel \<Rightarrow> (unit, 'd) action" where
  "enable self = enabled_setter self True"

definition disable :: "'d Channel \<Rightarrow> (unit, 'd) action" where
  "disable self = enabled_setter self False"

definition output_mode :: "'d Channel \<Rightarrow> (OutputMode, 'd) action" where
  "output_mode self =
     act_bind (scpi_query (scpi self) ('':OUTP:MODE? CH'' @ str_int (channel self)))
       (\<lambda>r. act_of (enum_call OutputMode_body r))"

definition Channel_call :: "'d Channel \<Rightarrow> Output \<Rightarrow> ('a, 'd) action \<Rightarrow> ('a, 'd) action" where
  "Channel_call self output body =
     act_finally
       (act_seq (output_setter self output) (act_seq (enable self) body))
       (disable self)"

section \<open>analyzer.py\<close>

record CommonAnalysis =
  ch1 :: "CommonAnalysisType option"
  ch2 :: "CommonAnalysisType option"
  ch3 :: "CommonAnalysisType option"

record PulseCurrentAnalysis =
  pulse_ch1 :: bool
  pulse_ch2 :: bool

text \<open>The argument of \<open>analyze\<close> is an instance of one of the two dataclasses.\<close>

datatype analysis_config = CommonConfig CommonAnalysis | PulseConfig PulseCurrentAnalysis

record 'd AnalyzerAPI =
  scpi_client :: "'d SCPIClient"

text \<open>The getter of \<open>log\<close> returns what the transport answered, as it is.\<close>

definition log_getter :: "'d AnalyzerAPI \<Rightarrow> (string, 'd) action" where
  "log_getter self = scpi_query (scpi_client self) '':ANALyzer:SAVE:STATe?''"

definition log_setter :: "'d AnalyzerAPI \<Rightarrow> pyval \<Rightarrow> (unit, 'd) action" where
  "log_setter self enabled =
     scpi_send (scpi_client self)
       ('':ANALyzer:SAVE:STATe '' @ (if truthy enabled then ''1'' else ''0''))"

definition active_getter :: "'d AnalyzerAPI \<Rightarrow> (bool, 'd) action" where
  "active_getter self =
     act_bind (scpi_query (scpi_client self) '':ANALyzer:STATe?'')
       (\<lambda>r. act_return (r = ''1''))"

definition active_setter :: "'d AnalyzerAPI \<Rightarrow> bool \<Rightarrow> (unit, 'd) action" where
  "active_setter self enabled =
     scpi_send (scpi_client self) ('':ANALyzer:STATe '' @ (if enabled then ''1'' else ''0''))"

definition type_getter :: "'d AnalyzerAPI \<Rightarrow> (AnalysisType, 'd) action" where
  "type_getter self =
     act_bind (scpi_query (scpi_client self) '':ANALyzer:TYPE?'')
       (\<lambda>r. act_of (enum_call AnalysisType_body r))"

definition type_setter :: "'d AnalyzerAPI \<Rightarrow> AnalysisType \<Rightarrow> (unit, 'd) action" where
  "type_setter self analysis_type =
     scpi_send (scpi_client self)
       ('':ANALyzer:TYPE '' @ enum_value AnalysisType_body analysis_type)"

text \<open>One round of the loop of \<open>get_common_measure\<close>.\<close>

definition common_item :: "string \<Rightarrow> CommonAnalysis \<Rightarrow> exn + CommonAnalysis" where
  "common_item item result =
     (case split_on CHR ''_'' item of
        [channel', analysis_type] \<Rightarrow>
          if channel' = ''CH1'' then
            (case enum_call CommonAnalysisType_body analysis_type of
               Inl e \<Rightarrow> Inl e | Inr t \<Rightarrow> Inr (result\<lparr>ch1 := Some t\<rparr>))
          else if channel' = ''CH2'' then
            (case enum_call CommonAnalysisType_body analysis_type of
               Inl e \<Rightarrow> Inl e | Inr t \<Rightarrow> Inr (result\<lparr>ch2 := Some t\<rparr>))
          else if channel' = ''CH3'' then
            (case enum_call CommonAnalysisType_body analysis_type of
               Inl e \<Rightarrow> Inl e | Inr t \<Rightarrow> Inr (result\<lparr>ch3 := Some t\<rparr>))
          else Inl (AssertionError ''Hinerk assumed he knew how to code!'')
      | _ \<Rightarrow> Inl ValueError)"

fun common_items :: "string list \<Rightarrow> CommonAnalysis \<Rightarrow> exn + CommonAnalysis" where
  "common_items [] result = Inr result"
| "common_items (item # items) result =
     (case common_item item result of Inl e \<Rightarrow> Inl e | Inr r \<Rightarrow> common_items items r)"

definition parse_common_measure :: "string \<Rightarrow> exn + CommonAnalysis" where
  "parse_common_measure response =
     common_items (split_on CHR '' '' response) \<lparr>ch1 = None, ch2 = None, ch3 = None\<rparr>"

definition get_common_measure :: "'d AnalyzerAPI \<Rightarrow> (CommonAnalysis, 'd) action" where
  "get_common_measure self =
     act_bind (scpi_query (scpi_client self) '':ANALyzer:COMMon:MEASure:TYPE?'')
       (\<lambda>response. act_of (parse_common_measure response))"

definition set_common_measure :: "'d AnalyzerAPI \<Rightarrow> CommonAnalysis \<Rightarrow> (unit, 'd) action" where
  "set_common_measure self config =
     act_seq (type_setter self Common)
       (let cmd_parts =
              concat (map (\<lambda>(i, ch). case ch of
                                        None \<Rightarrow> []
                                      | Some t \<Rightarrow> [''CH'' @ str_int i @ ''_'' @
                                                    enum_value CommonAnalysisType_body t])
                        (enumerate1 [ch1 config, ch2 config, ch3 config]));
            cmd = join '','' cmd_parts
        in scpi_send (scpi_client self) ('':ANALyzer:COMMon:MEASure:TYPE '' @ cmd))"

definition set_current_measure ::
  "'d AnalyzerAPI \<Rightarrow> PulseCurrentAnalysis \<Rightarrow> (unit, 'd) action" where
  "set_current_measure self config =
     act_seq (type_setter self PulseCurrent)
       (if \<not> (pulse_ch1 config \<or> pulse_ch2 config) then
          act_raise
            (AttributeError ''Pulse-Current-Analysis requires at least one enabled channel!'')
        else
          (let cmd = join '',''
                 (map (\<lambda>(i, ch). ''CH'' @ str_int i)
                    (filter (\<lambda>(i, ch). ch) (enumerate1 [pulse_ch1 config, pulse_ch2 config])))
           in scpi_send (scpi_client self) ('':ANALyzer:CURRent:MEASure:TYPE '' @ cmd)))"

text \<open>\<open>with self.analyze(config, log): body\<close>.\<close>

definition analyze ::
  "'d AnalyzerAPI \<Rightarrow> analysis_config \<Rightarrow> bool \<Rightarrow> ('a, 'd) action \<Rightarrow> ('a, 'd) action" where
  "analyze self config log' body =
     act_bind (log_getter self) (\<lambda>initial_value_of_self_log.
     act_bind (active_getter self) (\<lambda>initial_value_of_self_active.
       act_finally
         (act_seq
            (case config of
               PulseConfig c \<Rightarrow> set_current_measure self c
             | CommonConfig c \<Rightarrow> set_common_measure self c)
            (act_seq (if log' then log_setter self (PyBool True) else act_return ())
               (act_seq (active_setter self True) body)))
         (act_seq (active_setter self initial_value_of_self_active)
            (if log' then log_setter self (PyStr initial_value_of_self_log)
             else act_return ()))))"

section \<open>rigol\_dp932a.py\<close>

record 'd RigolDP932A =
  rigol_scpi :: "'d SCPIClient"

definition display_brightness_getter :: "'d RigolDP932A \<Rightarrow> (int, 'd) action" where
  "display_brightness_getter self =
     act_bind (scpi_query (rigol_scpi self) '':SYST:BRIG?'') (\<lambda>r. act_of (py_int r))"

definition display_brightness_setter :: "'d RigolDP932A \<Rightarrow> int \<Rightarrow> (unit, 'd) action" where
  "display_brightness_setter self brightness =
     scpi_send (rigol_scpi self) ('':SYST:BRIG '' @ str_int brightness)"

definition beeper_getter :: "'d RigolDP932A \<Rightarrow> (bool, 'd) action" where
  "beeper_getter self =
     act_bind (scpi_query (rigol_scpi self) '':SYST:BEEP?'') (\<lambda>r. act_return (r = ''1''))"

definition beeper_setter :: "'d RigolDP932A \<Rightarrow> bool \<Rightarrow> (unit, 'd) action" where
  "beeper_setter self v =
     scpi_send (rigol_scpi self) ('':SYST:BEEP '' @ (if v then ''ON'' else ''OFF''))"

definition beep :: "'d RigolDP932A \<Rightarrow> (unit, 'd) action" where
  "beep self = scpi_send (rigol_scpi self) '':SYSTem:BEEPer:IMMediate''"

text \<open>
  The local function \<open>blink\<close> of \<open>look_at_me\<close>; \<open>time.sleep\<close> only waits and has no
  counterpart here.
\<close>

definition blink :: "'d RigolDP932A \<Rightarrow> (unit, 'd) action" where
  "blink self =
     act_seq (display_brightness_setter self 100) (display_brightness_setter self 10)"

text \<open>\<open>for _ in range(n): m\<close>.\<close>

fun for_range :: "nat \<Rightarrow> (unit, 'd) action \<Rightarrow> (unit, 'd) action" where
  "for_range 0 m = act_return ()"
| "for_range (Suc n) m = act_seq m (for_range n m)"

definition look_at_me :: "'d RigolDP932A \<Rightarrow> (unit, 'd) action" where
  "look_at_me self =
     act_bind (display_brightness_getter self) (\<lambda>initial_brightness.
     act_bind (beeper_getter self) (\<lambda>initial_beeper.
       act_seq
         (for_range 3 (act_seq (blink self) (act_seq (beep self) (blink self))))
         (act_seq (display_brightness_setter self initial_brightness)
            (beeper_setter self initial_beeper))))"

section \<open>Instruments to run the driver against\<close>

text \<open>
  The instrument is not part of the repository.  The transports below stand for it
  where a statement needs a concrete one; they follow the wire table of the
  specification (section 6): settings are written with a command and read back with the
  same command followed by a question mark, booleans are read as \<open>1\<close> and \<open>0\<close>.
\<close>

definition start :: "'d \<Rightarrow> 'd link" where
  "start d = \<lparr>wire = [], device = d\<rparr>"

text \<open>A transport that accepts every command and answers every query from a table.\<close>

definition canned :: "(string \<Rightarrow> string) \<Rightarrow> unit SCPIClient" where
  "canned reply =
     \<lparr>on_send = (\<lambda>cmd d. (None, d)), on_query = (\<lambda>cmd d. (Inr (reply cmd), d))\<rparr>"

text \<open>The same, except that sending the command \<open>bad\<close> raises \<open>SCPIError\<close>.\<close>

definition failing_on :: "string \<Rightarrow> (string \<Rightarrow> string) \<Rightarrow> unit SCPIClient" where
  "failing_on bad reply =
     \<lparr>on_send = (\<lambda>cmd d. (if cmd = bad then Some (SCPIError cmd) else None, d)),
      on_query = (\<lambda>cmd d. (Inr (reply cmd), d))\<rparr>"

text \<open>The transport raises on no state of the instrument when it is sent \<open>cmd\<close>.\<close>

definition accepts :: "'d SCPIClient \<Rightarrow> string \<Rightarrow> bool" where
  "accepts client cmd \<longleftrightarrow> (\<forall>d. fst (on_send client cmd d) = None)"

definition bool_text :: "bool \<Rightarrow> string" where
  "bool_text b = (if b then ''1'' else ''0'')"

text \<open>An instrument that keeps the analyzer's two switches and ignores all else.\<close>

record analyzer_device =
  dev_active :: bool
  dev_logging :: bool

definition analyzer_step :: "string \<Rightarrow> analyzer_device \<Rightarrow> analyzer_device" where
  "analyzer_step cmd d =
     (if cmd = '':ANALyzer:STATe 1'' then d\<lparr>dev_active := True\<rparr>
      else if cmd = '':ANALyzer:STATe 0'' then d\<lparr>dev_active := False\<rparr>
      else if cmd = '':ANALyzer:SAVE:STATe 1'' then d\<lparr>dev_logging := True\<rparr>
      else if cmd = '':ANALyzer:SAVE:STATe 0'' then d\<lparr>dev_logging := False\<rparr>
      else d)"

definition analyzer_reply :: "string \<Rightarrow> analyzer_device \<Rightarrow> string" where
  "analyzer_reply cmd d =
     (if cmd = '':ANALyzer:STATe?'' then bool_text (dev_active d)
      else if cmd = '':ANALyzer:SAVE:STATe?'' then bool_text (dev_logging d)
      else [])"

definition analyzer_stub :: "analyzer_device SCPIClient" where
  "analyzer_stub =
     \<lparr>on_send = (\<lambda>cmd d. (None, analyzer_step cmd d)),
      on_query = (\<lambda>cmd d. (Inr (analyzer_reply cmd d), d))\<rparr>"

definition analyzer :: "analyzer_device AnalyzerAPI" where
  "analyzer = \<lparr>scpi_client = analyzer_stub\<rparr>"

text \<open>
  The configurations that \<open>set_common_measure\<close> and \<open>set_current_measure\<close> do not
  reject: every common configuration, and a pulse-current one with a channel enabled.
\<close>

definition config_accepted :: "analysis_config \<Rightarrow> bool" where
  "config_accepted config =
     (case config of CommonConfig c \<Rightarrow> True | PulseConfig c \<Rightarrow> pulse_ch1 c \<or> pulse_ch2 c)"

text \<open>
  An instrument that keeps the display brightness and the beeper switch; sending the
  command \<open>bad\<close> raises \<open>SCPIError\<close> and changes nothing.
\<close>

record panel_device =
  dev_brightness :: int
  dev_beeper :: bool

definition panel_stub :: "string \<Rightarrow> panel_device SCPIClient" where
  "panel_stub bad =
     \<lparr>on_send = (\<lambda>cmd d.
        if cmd = bad then (Some (SCPIError cmd), d)
        else (None,
              if take 11 cmd = '':SYST:BRIG '' then
                (case py_int (drop 11 cmd) of Inr n \<Rightarrow> d\<lparr>dev_brightness := n\<rparr> | Inl e \<Rightarrow> d)
              else if cmd = '':SYST:BEEP ON'' then d\<lparr>dev_beeper := True\<rparr>
              else if cmd = '':SYST:BEEP OFF'' then d\<lparr>dev_beeper := False\<rparr>
              else d)),
      on_query = (\<lambda>cmd d.
        (Inr (if cmd = '':SYST:BRIG?'' then str_int (dev_brightness d)
              else if cmd = '':SYST:BEEP?'' then bool_text (dev_beeper d)
              else []),
         d))\<rparr>"

text \<open>The part of a token of a common-measure answer before its first underscore.\<close>

definition channel_tag :: "string \<Rightarrow> string" where
  "channel_tag item = takeWhile (\<lambda>c. c \<noteq> CHR ''_'') item"

text \<open>
  What \<open>get_common_measure\<close> raises on an answer it cannot read: \<open>ValueError\<close> from
  tuple unpacking or from the enumeration, or the \<open>AssertionError\<close> of its last branch.
\<close>

definition parse_error :: "exn \<Rightarrow> bool" where
  "parse_error e \<longleftrightarrow> e = ValueError \<or> e = AssertionError ''Hinerk assumed he knew how to code!''"

section \<open>Facts about the transport and the control structures\<close>

lemmas act_defs = act_return_def act_raise_def act_bind_def act_seq_def act_finally_def
  act_of_def

lemma str_int_1: "str_int 1 = ''1''" by code_simp
lemma format_5: "format_3f (Finite False 5) = ''5.000''" by code_simp
lemma format_1: "format_3f (Finite False 1) = ''1.000''" by code_simp

lemma wire_send: "wire (snd (scpi_send c cmd s)) = wire s @ [Send cmd]"
  by (simp add: scpi_send_def split: prod.splits)

lemma device_send: "device (snd (scpi_send c cmd s)) = snd (on_send c cmd (device s))"
  by (simp add: scpi_send_def split: prod.splits)

lemma wire_query: "wire (snd (scpi_query c cmd s)) = wire s @ [Query cmd]"
  by (simp add: scpi_query_def split: prod.splits)

lemma send_accepted: "accepts c cmd \<Longrightarrow> fst (scpi_send c cmd s) = Inr ()"
  by (simp add: scpi_send_def accepts_def split: prod.splits option.splits)
    (metis fst_conv option.distinct(1))

lemma seq_accepted: "accepts c cmd \<Longrightarrow> act_seq (scpi_send c cmd) n s = n (snd (scpi_send c cmd s))"
  using send_accepted [of c cmd s]
  by (cases "scpi_send c cmd s") (simp add: act_seq_def act_bind_def)

lemma wire_finally_send:
  "wire (snd (act_finally m (scpi_send c cmd) s)) = wire (snd (m s)) @ [Send cmd]"
proof (cases "m s")
  case (Pair r s')
  then show ?thesis
    using wire_send [of c cmd s']
    by (cases "scpi_send c cmd s'") (auto simp add: act_finally_def split: sum.splits)
qed

lemma finally_send_result:
  "act_finally m (scpi_send c cmd) s
     = (case scpi_send c cmd (snd (m s)) of
          (Inl e, s3) \<Rightarrow> (Inl e, s3)
        | (Inr u, s3) \<Rightarrow> (fst (m s), s3))"
  by (cases "m s") (simp add: act_finally_def split: prod.splits sum.splits)

lemma finally_accepted:
  "accepts c cmd \<Longrightarrow> fst (act_finally m (scpi_send c cmd) s) = fst (m s)"
proof (cases "m s")
  case (Pair r s')
  assume "accepts c cmd"
  then show ?thesis
    using send_accepted [of c cmd s'] Pair
    by (cases "scpi_send c cmd s'") (auto simp add: act_finally_def split: sum.splits)
qed

lemma wire_bind_pure:
  "wire (snd (act_bind m (\<lambda>r. act_of (f r)) s)) = wire (snd (m s))"
  by (cases "m s") (auto simp add: act_bind_def act_of_def split: sum.splits)

lemma wire_probe:
  "wire (snd (probe self s)) = wire s @ [Query (''MEAS:ALL? CH'' @ str_int (channel self))]"
proof -
  obtain r s' where q: "scpi_query (scpi self) (''MEAS:ALL? CH'' @ str_int (channel self)) s = (r, s')"
    by (cases "scpi_query (scpi self) (''MEAS:ALL? CH'' @ str_int (channel self)) s") 
  have "wire s' = wire s @ [Query (''MEAS:ALL? CH'' @ str_int (channel self))]"
    using wire_query [of "scpi self" _ s] q by (metis snd_conv)
  moreover have "snd (probe self s) = s'"
    using q by (auto simp add: probe_def act_defs split: sum.splits list.splits)
  ultimately show ?thesis by simp
qed

section \<open>Channel activation\<close>

text \<open>
  C1.  For the channel with index 1, \<open>with ch1(Output(5.0, 1.0)): ch1.probe()\<close> hands
  exactly four requests to the transport, in this order: \<open>:APPL CH1,5.000,1.000\<close>,
  \<open>:OUTP CH1,ON\<close>, \<open>MEAS:ALL? CH1\<close>, \<open>:OUTP CH1,OFF\<close>.  This holds on every transport
  that does not raise on the two set-up commands, whatever it answers to the probe and
  whether or not the probe or the last command raises.
\<close>

theorem run_active_probe_commands:
  assumes "channel self = 1"
    and "accepts (scpi self) '':APPL CH1,5.000,1.000''"
    and "accepts (scpi self) '':OUTP CH1,ON''"
  shows "wire (snd (Channel_call self (Output (Finite False 5) (Finite False 1)) (probe self) s))
         = wire s @ [Send '':APPL CH1,5.000,1.000'', Send '':OUTP CH1,ON'',
                     Query ''MEAS:ALL? CH1'', Send '':OUTP CH1,OFF'']"
proof -
  have out: "output_setter self (Output (Finite False 5) (Finite False 1))
             = scpi_send (scpi self) '':APPL CH1,5.000,1.000''"
    using assms(1) by (simp add: output_setter_def str_int_1 format_5 format_1 del: format_3f.simps)
  have en: "enable self = scpi_send (scpi self) '':OUTP CH1,ON''"
    using assms(1) by (simp add: enable_def enabled_setter_def str_int_1)
  have dis: "disable self = scpi_send (scpi self) '':OUTP CH1,OFF''"
    using assms(1) by (simp add: disable_def enabled_setter_def str_int_1)
  show ?thesis
    unfolding Channel_call_def out en dis
    by (simp add: wire_finally_send seq_accepted assms wire_probe wire_send str_int_1)
qed

text \<open>The same run on a transport that accepts everything, from an empty wire.\<close>

theorem run_active_probe_commands_witness:
  "wire (snd (Channel_call \<lparr>channel = 1, scpi = canned (\<lambda>_. ''5.001,0.998,4.991'')\<rparr>
           (Output (Finite False 5) (Finite False 1))
           (probe \<lparr>channel = 1, scpi = canned (\<lambda>_. ''5.001,0.998,4.991'')\<rparr>) (start ())))
   = [Send '':APPL CH1,5.000,1.000'', Send '':OUTP CH1,ON'',
      Query ''MEAS:ALL? CH1'', Send '':OUTP CH1,OFF'']"
  using run_active_probe_commands [of "\<lparr>channel = 1, scpi = canned (\<lambda>_. ''5.001,0.998,4.991'')\<rparr>" "start ()"]
  by (simp add: accepts_def canned_def start_def)

section \<open>Output mode\<close>

text \<open>
  C7.  The claim wants the answer \<open>CC\<close> read as \<open>ConstantCurrent\<close>.  In the class body
  \<open>ConstantCurrent\<close> has the value \<open>CV\<close>, so it is an alias of \<open>ConstantVoltage\<close> and no
  member has the value \<open>CC\<close>: on the answer \<open>CC\<close> the getter raises \<open>ValueError\<close>.
\<close>

theorem output_mode_CC_raises:
  "fst (output_mode \<lparr>channel = i, scpi = canned (\<lambda>_. ''CC'')\<rparr> s) = Inl ValueError"
  by (simp add: output_mode_def act_defs scpi_query_def canned_def enum_call_def
      OutputMode_body_def)

lemma output_mode_CV_UR:
  "fst (output_mode \<lparr>channel = i, scpi = canned (\<lambda>_. ''CV'')\<rparr> s) = Inr ConstantVoltage
   \<and> fst (output_mode \<lparr>channel = i, scpi = canned (\<lambda>_. ''UR'')\<rparr> s) = Inr Unregulated
   \<and> enum_member OutputMode_body ConstantCurrent = Inr ConstantVoltage"
  by (simp add: output_mode_def act_defs scpi_query_def canned_def enum_call_def
      OutputMode_body_def enum_member_def enum_value_def)

section \<open>Protection session\<close>

text \<open>
  However the session goes, also when a set-up command raises, the last thing handed to
  the transport is the disarm command.
\<close>

lemma run_protected_always_disarms:
  "last (wire (snd (OverProtectiveParent_call self level body s)))
     = Send (prot_prefix self @ '':STAT OFF'')"
  unfolding OverProtectiveParent_call_def state_setter_def
  by (simp add: wire_finally_send)

lemma format_1500: "format_3f (Finite False (3 / 2)) = ''1.500''" by code_simp

text \<open>
  The claim says that an exception of the body always reaches the caller.  When the
  transport raises on the disarm command, the \<open>finally\<close> block raises in its turn and
  the caller gets that exception instead of the body's: here the body is interrupted and
  the caller sees the \<open>SCPIError\<close> of the disarm command.
\<close>

theorem run_protected_disarm_raises_counterexample:
  "fst (OverProtectiveParent_call
          (ocp \<lparr>channel = 1,
                 scpi = failing_on '':SOURCe[1]:CURRent:PROT:STAT OFF'' (\<lambda>_. [])\<rparr>)
          (Finite False (3 / 2)) (act_raise KeyboardInterrupt :: (unit, unit) action) (start ()))
     = Inl (SCPIError '':SOURCe[1]:CURRent:PROT:STAT OFF'')
   \<and> fst (OverProtectiveParent_call
          (ocp \<lparr>channel = 1,
                 scpi = failing_on '':SOURCe[1]:CURRent:PROT:STAT OFF'' (\<lambda>_. [])\<rparr>)
          (Finite False (3 / 2)) (act_raise KeyboardInterrupt :: (unit, unit) action) (start ()))
     \<noteq> Inl KeyboardInterrupt"
  by code_simp

text \<open>
  C2, amended.  For every threshold and every body, on a transport that accepts the
  three set-up commands: the session hands the clear command, the threshold and the arm
  command to the transport, in this order, and runs the body on the link so reached (its
  wire has gained these three requests, its instrument has received them); whatever the
  body's outcome (a value, an exception, an interruption), the disarm command is sent
  next, on the link the body left.  The outcome of the session is the outcome of the
  body when the disarm command does not raise, so an exception of the body then reaches
  the caller after the disarm command; when the disarm command raises, its exception
  reaches the caller instead.
\<close>

theorem run_protected_session:
  assumes "accepts (opp_scpi self) (prot_prefix self @ '':CLE'')"
    and "accepts (opp_scpi self) (prot_prefix self @ '' '' @ format_3f level)"
    and "accepts (opp_scpi self) (prot_prefix self @ '':STAT ON'')"
  shows "\<exists>s1. wire s1 = wire s @ [Send (prot_prefix self @ '':CLE''),
                                   Send (prot_prefix self @ '' '' @ format_3f level),
                                   Send (prot_prefix self @ '':STAT ON'')]
            \<and> device s1
                = snd (on_send (opp_scpi self) (prot_prefix self @ '':STAT ON'')
                    (snd (on_send (opp_scpi self) (prot_prefix self @ '' '' @ format_3f level)
                      (snd (on_send (opp_scpi self) (prot_prefix self @ '':CLE'') (device s))))))
            \<and> OverProtectiveParent_call self level body s
                = (case scpi_send (opp_scpi self) (prot_prefix self @ '':STAT OFF'')
                          (snd (body s1)) of
                     (Inl e, s3) \<Rightarrow> (Inl e, s3)
                   | (Inr u, s3) \<Rightarrow> (fst (body s1), s3))
            \<and> wire (snd (OverProtectiveParent_call self level body s))
                = wire (snd (body s1)) @ [Send (prot_prefix self @ '':STAT OFF'')]"
proof -
  let ?s1 = "snd (scpi_send (opp_scpi self) (prot_prefix self @ '':STAT ON'')
              (snd (scpi_send (opp_scpi self) (prot_prefix self @ '' '' @ format_3f level)
                (snd (scpi_send (opp_scpi self) (prot_prefix self @ '':CLE'') s)))))"
  have w: "wire ?s1 = wire s @ [Send (prot_prefix self @ '':CLE''),
                                   Send (prot_prefix self @ '' '' @ format_3f level),
                                   Send (prot_prefix self @ '':STAT ON'')]"
    by (simp add: wire_send)
  have d: "device ?s1
            = snd (on_send (opp_scpi self) (prot_prefix self @ '':STAT ON'')
                (snd (on_send (opp_scpi self) (prot_prefix self @ '' '' @ format_3f level)
                  (snd (on_send (opp_scpi self) (prot_prefix self @ '':CLE'') (device s))))))"
    by (simp only: device_send)
  have on: "state_setter self True = scpi_send (opp_scpi self) (prot_prefix self @ '':STAT ON'')"
    by (simp add: state_setter_def)
  have off: "state_setter self False = scpi_send (opp_scpi self) (prot_prefix self @ '':STAT OFF'')"
    by (simp add: state_setter_def)
  have pre: "act_seq (clear self) (act_seq (level_setter self level)
             (act_seq (state_setter self True) body)) s = body ?s1"
    by (simp only: clear_def level_setter_def on
        seq_accepted [OF assms(1)] seq_accepted [OF assms(2)] seq_accepted [OF assms(3)])
  have "OverProtectiveParent_call self level body s
          = (case scpi_send (opp_scpi self) (prot_prefix self @ '':STAT OFF'')
                    (snd (body ?s1)) of
               (Inl e, s3) \<Rightarrow> (Inl e, s3)
             | (Inr u, s3) \<Rightarrow> (fst (body ?s1), s3))"
    unfolding OverProtectiveParent_call_def off
    by (simp only: finally_send_result pre)
  moreover have "wire (snd (OverProtectiveParent_call self level body s))
                = wire (snd (body ?s1)) @ [Send (prot_prefix self @ '':STAT OFF'')]"
    unfolding OverProtectiveParent_call_def off wire_finally_send
    by (simp only: pre)
  ultimately show ?thesis using w d by blast
qed

text \<open>A body that is interrupted: the interruption reaches the caller, after the disarm.\<close>

theorem run_protected_session_witness:
  "fst (OverProtectiveParent_call (ocp \<lparr>channel = 1, scpi = canned (\<lambda>_. [])\<rparr>)
          (Finite False (3 / 2)) (act_raise KeyboardInterrupt :: (unit, unit) action) (start ()))
     = Inl KeyboardInterrupt
   \<and> wire (snd (OverProtectiveParent_call (ocp \<lparr>channel = 1, scpi = canned (\<lambda>_. [])\<rparr>)
          (Finite False (3 / 2)) (act_raise KeyboardInterrupt :: (unit, unit) action) (start ())))
     = [Send '':SOURCe[1]:CURRent:PROT:CLE'', Send '':SOURCe[1]:CURRent:PROT 1.500'',
        Send '':SOURCe[1]:CURRent:PROT:STAT ON'', Send '':SOURCe[1]:CURRent:PROT:STAT OFF'']"
proof -
  have a: "\<And>cmd. accepts (opp_scpi (ocp \<lparr>channel = 1, scpi = canned (\<lambda>_. [])\<rparr>)) cmd"
    by (simp add: accepts_def ocp_def canned_def)
  have p: "prot_prefix (ocp \<lparr>channel = 1, scpi = canned (\<lambda>_. [])\<rparr>) = '':SOURCe[1]:CURRent:PROT''"
    by (simp add: prot_prefix_def source_id_def ocp_def str_int_1)
  have c: "opp_scpi (ocp \<lparr>channel = 1, scpi = canned (\<lambda>_. [])\<rparr>) = canned (\<lambda>_. [])"
    by (simp add: ocp_def)
  show ?thesis
    using run_protected_session [OF a a a, where level = "Finite False (3 / 2)" and s = "start ()"
        and body = "act_raise KeyboardInterrupt :: (unit, unit) action"]
    unfolding p format_1500 c
    by (auto simp add: act_raise_def start_def scpi_send_def canned_def)
qed

section \<open>Pulse-current configuration\<close>

lemma type_curr: "type_setter self PulseCurrent = scpi_send (scpi_client self) '':ANALyzer:TYPE CURR''"
  by (simp add: type_setter_def enum_value_def AnalysisType_body_def)

text \<open>
  The claim says that no command is sent before the error.  On a transport that accepts
  everything, starting from an empty wire, the wire holds the type command when the
  error is raised.
\<close>

theorem set_current_measure_none_enabled_counterexample:
  "set_current_measure \<lparr>scpi_client = canned (\<lambda>_. [])\<rparr> \<lparr>pulse_ch1 = False, pulse_ch2 = False\<rparr>
     (start ())
   = (Inl (AttributeError ''Pulse-Current-Analysis requires at least one enabled channel!''),
      \<lparr>wire = [Send '':ANALyzer:TYPE CURR''], device = ()\<rparr>)"
  by (simp add: set_current_measure_def type_curr act_defs scpi_send_def canned_def start_def)

text \<open>
  C3, amended.  With neither channel enabled, \<open>set_current_measure\<close> first sends the
  command that switches the analyzer to pulse-current analysis, and when the transport
  accepts it raises \<open>AttributeError\<close> (the specification's InvalidArgument); that type
  command is the only request made, the measure command is not sent.
\<close>

theorem set_current_measure_none_enabled:
  assumes "accepts (scpi_client self) '':ANALyzer:TYPE CURR''"
  shows "fst (set_current_measure self \<lparr>pulse_ch1 = False, pulse_ch2 = False\<rparr> s)
           = Inl (AttributeError ''Pulse-Current-Analysis requires at least one enabled channel!'')
         \<and> wire (snd (set_current_measure self \<lparr>pulse_ch1 = False, pulse_ch2 = False\<rparr> s))
           = wire s @ [Send '':ANALyzer:TYPE CURR'']"
  unfolding set_current_measure_def type_curr
  by (simp add: seq_accepted assms wire_send act_raise_def)

theorem set_current_measure_none_enabled_witness:
  "fst (set_current_measure \<lparr>scpi_client = canned (\<lambda>_. [])\<rparr> \<lparr>pulse_ch1 = False, pulse_ch2 = False\<rparr> (start ()))
           = Inl (AttributeError ''Pulse-Current-Analysis requires at least one enabled channel!'')
         \<and> wire (snd (set_current_measure \<lparr>scpi_client = canned (\<lambda>_. [])\<rparr> \<lparr>pulse_ch1 = False, pulse_ch2 = False\<rparr> (start ())))
           = [Send '':ANALyzer:TYPE CURR'']"
  using set_current_measure_none_enabled [of "\<lparr>scpi_client = canned (\<lambda>_. [])\<rparr>" "start ()"]
  by (simp add: accepts_def canned_def start_def)

section \<open>Reading the common-measure configuration\<close>

lemma hd_split_on: "hd (split_on c s) = takeWhile (\<lambda>x. x \<noteq> c) s"
  by (induction s) (auto simp add: Let_def)

lemma split_on_not_Nil: "split_on c s \<noteq> []"
  by (induction s) (auto simp add: Let_def)

lemma common_item_error: "common_item item r = Inl e \<Longrightarrow> parse_error e"
  by (auto simp add: common_item_def parse_error_def enum_call_def split: list.splits if_splits sum.splits option.splits)

lemma common_item_bad_tag:
  assumes "channel_tag item \<notin> {''CH1'', ''CH2'', ''CH3''}"
  shows "\<exists>e. common_item item r = Inl e"
proof (cases "split_on CHR ''_'' item")
  case Nil
  then show ?thesis by (simp add: split_on_not_Nil)
next
  case (Cons a as)
  then have "a = channel_tag item"
    using hd_split_on [of "CHR ''_''" item] by (simp add: channel_tag_def)
  with assms Cons show ?thesis
    by (auto simp add: common_item_def split: list.splits)
qed

lemma common_items_bad_tag:
  assumes "\<exists>item \<in> set items. channel_tag item \<notin> {''CH1'', ''CH2'', ''CH3''}"
  shows "\<exists>e. common_items items r = Inl e \<and> parse_error e"
  using assms
proof (induction items arbitrary: r)
  case Nil
  then show ?case by simp
next
  case (Cons item items)
  show ?case
  proof (cases "common_item item r")
    case (Inl e)
    then show ?thesis using common_item_error [OF Inl] by simp
  next
    case (Inr r')
    then have "channel_tag item \<in> {''CH1'', ''CH2'', ''CH3''}"
      using common_item_bad_tag [of item r] by auto
    with Cons.prems have "\<exists>item \<in> set items. channel_tag item \<notin> {''CH1'', ''CH2'', ''CH3''}"
      by auto
    from Cons.IH [OF this, of r'] Inr show ?thesis by simp
  qed
qed

lemma parse_example: "parse_common_measure ''CH1_V CH2_C CH3_P'' = Inr \<lparr>ch1 = Some Voltage, ch2 = Some Current, ch3 = Some Power\<rparr>"
  by (simp add: parse_common_measure_def common_item_def enum_call_def CommonAnalysisType_body_def)

lemma parse_CH4: "parse_common_measure ''CH4_V'' = Inl (AssertionError ''Hinerk assumed he knew how to code!'')"
  by (simp add: parse_common_measure_def common_item_def enum_call_def CommonAnalysisType_body_def)

text \<open>
  C4.  When the transport answers \<open>CH1_V CH2_C CH3_P\<close>, \<open>get_common_measure\<close> returns
  the configuration with voltage on channel 1, current on channel 2 and power on
  channel 3.  When the answer has a token whose channel tag is not \<open>CH1\<close>, \<open>CH2\<close> or
  \<open>CH3\<close>, it raises: on \<open>CH4_V\<close> the \<open>AssertionError\<close> of the last branch, and in
  general that error or the \<open>ValueError\<close> of a token read before (the two together are
  what the specification calls a ProtocolViolation).
\<close>

theorem get_common_measure_parses:
  assumes "on_query (scpi_client self) '':ANALyzer:COMMon:MEASure:TYPE?'' (device s) = (Inr response, d)"
  shows "(response = ''CH1_V CH2_C CH3_P'' \<longrightarrow>
            fst (get_common_measure self s)
              = Inr \<lparr>ch1 = Some Voltage, ch2 = Some Current, ch3 = Some Power\<rparr>)
       \<and> (response = ''CH4_V'' \<longrightarrow>
            fst (get_common_measure self s)
              = Inl (AssertionError ''Hinerk assumed he knew how to code!''))
       \<and> ((\<exists>item \<in> set (split_on CHR '' '' response).
              channel_tag item \<notin> {''CH1'', ''CH2'', ''CH3''}) \<longrightarrow>
            (\<exists>e. fst (get_common_measure self s) = Inl e \<and> parse_error e))"
proof -
  have "fst (get_common_measure self s) = parse_common_measure response"
    using assms by (simp add: get_common_measure_def scpi_query_def act_defs)
  then show ?thesis
    using parse_example parse_CH4 common_items_bad_tag [of "split_on CHR '' '' response"]
    by (auto simp add: parse_common_measure_def)
qed

theorem get_common_measure_parses_witness:
  "fst (get_common_measure \<lparr>scpi_client = canned (\<lambda>_. ''CH1_V CH4_V'')\<rparr> (start ()))
     = Inl (AssertionError ''Hinerk assumed he knew how to code!'')"
proof -
  have "\<exists>item \<in> set (split_on CHR '' '' ''CH1_V CH4_V'').
          channel_tag item \<notin> {''CH1'', ''CH2'', ''CH3''}"
    by (simp add: channel_tag_def)
  moreover have "on_query (scpi_client \<lparr>scpi_client = canned (\<lambda>_. ''CH1_V CH4_V'')\<rparr>)
                   '':ANALyzer:COMMon:MEASure:TYPE?'' (device (start ()))
                 = (Inr ''CH1_V CH4_V'', ())"
    by (simp add: canned_def)
  ultimately have "\<exists>e. fst (get_common_measure \<lparr>scpi_client = canned (\<lambda>_. ''CH1_V CH4_V'')\<rparr>
                            (start ())) = Inl e \<and> parse_error e"
    using get_common_measure_parses
      [of "\<lparr>scpi_client = canned (\<lambda>_. ''CH1_V CH4_V'')\<rparr>" "start ()" "''CH1_V CH4_V''" "()"]
    by blast
  then show ?thesis
    by (simp add: get_common_measure_def scpi_query_def act_defs canned_def start_def
        parse_common_measure_def common_item_def enum_call_def CommonAnalysisType_body_def)
qed

section \<open>Analyzer session\<close>

lemma stub_send:
  "scpi_send analyzer_stub cmd s
     = (Inr (), \<lparr>wire = wire s @ [Send cmd], device = analyzer_step cmd (device s)\<rparr>)"
  by (simp add: scpi_send_def analyzer_stub_def)

lemma stub_query:
  "scpi_query analyzer_stub cmd s
     = (Inr (analyzer_reply cmd (device s)), \<lparr>wire = wire s @ [Query cmd], device = device s\<rparr>)"
  by (simp add: scpi_query_def analyzer_stub_def)

lemma snd_finally: "snd (act_finally m c s) = snd (c (snd (m s)))"
  by (simp add: act_finally_def split: prod.splits sum.splits)

lemma seq_stub: "act_seq (scpi_send analyzer_stub cmd) n s = n (snd (scpi_send analyzer_stub cmd s))"
  by (simp add: act_seq_def act_bind_def stub_send)

lemma seq_return: "act_seq (act_return ()) n = n"
  by (rule ext) (simp add: act_seq_def act_bind_def act_return_def)

lemma step_type: "analyzer_step ('':ANALyzer:TYPE '' @ x) d = d"
  by (simp add: analyzer_step_def)

lemma step_common: "analyzer_step ('':ANALyzer:COMMon:MEASure:TYPE '' @ x) d = d"
  by (simp add: analyzer_step_def)

lemma step_current: "analyzer_step ('':ANALyzer:CURRent:MEASure:TYPE '' @ x) d = d"
  by (simp add: analyzer_step_def)

lemma step_active:
  "analyzer_step ('':ANALyzer:STATe '' @ (if b then ''1'' else ''0'')) d = d\<lparr>dev_active := b\<rparr>"
  by (simp add: analyzer_step_def)

lemma seq_ok: "fst (m s) = Inr v \<Longrightarrow> act_seq m n s = n (snd (m s))"
  by (cases "m s") (simp add: act_seq_def act_bind_def)

lemma snd_seq_return: "snd (act_seq m (act_return ()) s) = snd (m s)"
  by (cases "m s") (auto simp add: act_seq_def act_bind_def act_return_def split: sum.splits)

lemma log_getter_stub:
  "act_bind (log_getter analyzer) f s
     = f (bool_text (dev_logging (device s)))
         \<lparr>wire = wire s @ [Query '':ANALyzer:SAVE:STATe?''], device = device s\<rparr>"
  by (simp add: log_getter_def analyzer_def act_bind_def stub_query analyzer_reply_def)

lemma active_getter_stub:
  "act_bind (active_getter analyzer) f s
     = f (dev_active (device s))
         \<lparr>wire = wire s @ [Query '':ANALyzer:STATe?''], device = device s\<rparr>"
  by (simp add: active_getter_def analyzer_def act_bind_def act_return_def stub_query
      analyzer_reply_def bool_text_def)

lemma stub_config:
  assumes "config_accepted config"
  shows "\<exists>t. device t = device s \<and>
           (\<forall>n :: ('a, analyzer_device) action.
              act_seq (case config of
                         PulseConfig c \<Rightarrow> set_current_measure analyzer c
                       | CommonConfig c \<Rightarrow> set_common_measure analyzer c) n s = n t)"
proof (cases config)
  case (CommonConfig c)
  let ?t = "snd (set_common_measure analyzer c s)"
  have 1: "fst (set_common_measure analyzer c s) = Inr ()"
    by (simp add: set_common_measure_def type_setter_def analyzer_def seq_stub stub_send Let_def)
  have "device ?t = device s"
    by (simp add: set_common_measure_def type_setter_def analyzer_def seq_stub stub_send Let_def
        step_type step_common del: append.simps)
  moreover have "\<And>n :: ('a, analyzer_device) action. act_seq (set_common_measure analyzer c) n s = n ?t"
    using 1 by (rule seq_ok)
  ultimately show ?thesis unfolding CommonConfig by auto
next
  case (PulseConfig c)
  with assms have en: "pulse_ch1 c \<or> pulse_ch2 c"
    by (simp add: config_accepted_def)
  let ?t = "snd (set_current_measure analyzer c s)"
  have 1: "fst (set_current_measure analyzer c s) = Inr ()"
    using en by (auto simp add: set_current_measure_def type_setter_def analyzer_def seq_stub stub_send Let_def)
  have "device ?t = device s"
    using en by (auto simp add: set_current_measure_def type_setter_def analyzer_def seq_stub stub_send Let_def
        step_type step_current simp del: append.simps)
  moreover have "\<And>n :: ('a, analyzer_device) action. act_seq (set_current_measure analyzer c) n s = n ?t"
    using 1 by (rule seq_ok)
  ultimately show ?thesis unfolding PulseConfig by auto
qed

lemma stub_config_rejected:
  assumes "\<not> config_accepted config"
  shows "device (snd (act_seq (case config of
                         PulseConfig c \<Rightarrow> set_current_measure analyzer c
                       | CommonConfig c \<Rightarrow> set_common_measure analyzer c) n s)) = device s"
proof -
  from assms obtain c where c: "config = PulseConfig c" "\<not> (pulse_ch1 c \<or> pulse_ch2 c)"
    by (cases config) (auto simp add: config_accepted_def)
  show ?thesis
    unfolding c(1) using c(2)
    by (simp add: set_current_measure_def type_setter_def analyzer_def seq_stub stub_send
        act_seq_def act_bind_def act_raise_def step_type del: append.simps)
qed

lemma stub_active_setter:
  "device (snd (active_setter analyzer b s)) = (device s)\<lparr>dev_active := b\<rparr>"
  by (simp add: active_setter_def analyzer_def stub_send step_active del: append.simps)

lemma analyze_stub_no_log:
  "\<exists>s0. device s0 = device s \<and>
     snd (analyze analyzer config False body s)
       = snd (active_setter analyzer (dev_active (device s))
           (snd (act_seq (case config of
                         PulseConfig c \<Rightarrow> set_current_measure analyzer c
                       | CommonConfig c \<Rightarrow> set_common_measure analyzer c)
                   (act_seq (active_setter analyzer True) body) s0)))"
proof -
  let ?s0 = "\<lparr>wire = wire s @ [Query '':ANALyzer:SAVE:STATe?'', Query '':ANALyzer:STATe?''],
              device = device s\<rparr>"
  have "analyze analyzer config False body s
          = act_finally
              (act_seq (case config of
                         PulseConfig c \<Rightarrow> set_current_measure analyzer c
                       | CommonConfig c \<Rightarrow> set_common_measure analyzer c)
                   (act_seq (active_setter analyzer True) body))
              (act_seq (active_setter analyzer (dev_active (device s))) (act_return ())) ?s0"
    by (simp add: analyze_def log_getter_stub active_getter_stub seq_return)
  then have "snd (analyze analyzer config False body s)
       = snd (active_setter analyzer (dev_active (device s))
           (snd (act_seq (case config of
                         PulseConfig c \<Rightarrow> set_current_measure analyzer c
                       | CommonConfig c \<Rightarrow> set_common_measure analyzer c)
                   (act_seq (active_setter analyzer True) body) ?s0)))"
    by (simp only: snd_finally snd_seq_return)
  then show ?thesis by (intro exI [of _ ?s0]) simp
qed

text \<open>
  A session without logging sends no logging command of its own: on the instrument that
  keeps the two switches, the logging state after the session is the one the body left
  (the body starts on the instrument as it was, with the analyzer switched on), and the
  one before the session when the configuration is rejected and the body never runs.
\<close>

lemma analyze_without_log_frame:
  "\<exists>s1. device s1 = (device s)\<lparr>dev_active := True\<rparr>
      \<and> dev_logging (device (snd (analyze analyzer config False body s)))
          = (if config_accepted config then dev_logging (device (snd (body s1)))
             else dev_logging (device s))"
proof -
  let ?cfg = "case config of
                PulseConfig c \<Rightarrow> set_current_measure analyzer c
              | CommonConfig c \<Rightarrow> set_common_measure analyzer c"
  obtain s0 where s0: "device s0 = device s"
    and fin: "snd (analyze analyzer config False body s)
       = snd (active_setter analyzer (dev_active (device s))
           (snd (act_seq ?cfg (act_seq (active_setter analyzer True) body) s0)))"
    using analyze_stub_no_log [of s config body] by blast
  have logging: "dev_logging (device (snd (analyze analyzer config False body s)))
      = dev_logging (device (snd (act_seq ?cfg (act_seq (active_setter analyzer True) body) s0)))"
    unfolding fin by (simp add: stub_active_setter)
  show ?thesis
  proof (cases "config_accepted config")
    case True
    then obtain t where t: "device t = device s0"
      and run: "act_seq ?cfg (act_seq (active_setter analyzer True) body) s0
                = act_seq (active_setter analyzer True) body t"
      using stub_config [of config s0] by blast
    let ?s1 = "snd (active_setter analyzer True t)"
    have "fst (active_setter analyzer True t) = Inr ()"
      by (simp add: active_setter_def analyzer_def stub_send)
    then have "act_seq (active_setter analyzer True) body t = body ?s1"
      by (rule seq_ok)
    with run logging have "dev_logging (device (snd (analyze analyzer config False body s)))
      = dev_logging (device (snd (body ?s1)))"
      by simp
    moreover have "device ?s1 = (device s)\<lparr>dev_active := True\<rparr>"
      by (simp add: stub_active_setter t s0)
    ultimately show ?thesis using True by auto
  next
    case False
    have "device (snd (act_seq ?cfg (act_seq (active_setter analyzer True) body) s0)) = device s0"
      by (rule stub_config_rejected [OF False])
    then have "dev_logging (device (snd (analyze analyzer config False body s))) = dev_logging (device s)"
      using logging s0 by simp
    then show ?thesis using False
      by (intro exI [of _ "s\<lparr>device := (device s)\<lparr>dev_active := True\<rparr>\<rparr>"]) simp
  qed
qed

text \<open>
  C5.  A session run with \<open>log=False\<close> ends with the logging state it began with, also
  when the body changed it for a while: for every configuration and every body that,
  started on the instrument as the session hands it over (analyzer on, logging as
  before), ends with the logging state it started with, the logging state after the
  session is the logging state before it.
\<close>

theorem analyze_without_log_keeps_logging:
  assumes "\<And>t. device t = (device s)\<lparr>dev_active := True\<rparr>
             \<Longrightarrow> dev_logging (device (snd (body t))) = dev_logging (device t)"
  shows "dev_logging (device (snd (analyze analyzer config False body s)))
           = dev_logging (device s)"
proof -
  obtain s1 where s1: "device s1 = (device s)\<lparr>dev_active := True\<rparr>"
    and fin: "dev_logging (device (snd (analyze analyzer config False body s)))
          = (if config_accepted config then dev_logging (device (snd (body s1)))
             else dev_logging (device s))"
    using analyze_without_log_frame [of s config body] by blast
  have "dev_logging (device (snd (body s1))) = dev_logging (device s1)"
    using s1 by (rule assms)
  with s1 fin show ?thesis by simp
qed

text \<open>
  A body that switches logging on and off again, on an instrument with logging off:
  the session ends with logging off.
\<close>

theorem analyze_without_log_keeps_logging_witness:
  "dev_logging (device (snd (analyze analyzer
       (CommonConfig \<lparr>ch1 = Some Voltage, ch2 = None, ch3 = None\<rparr>) False
       (act_seq (log_setter analyzer (PyBool True)) (log_setter analyzer (PyBool False)))
       (start \<lparr>dev_active = False, dev_logging = False\<rparr>))))
   = False"
proof -
  have h: "\<And>t. device t = (device (start \<lparr>dev_active = False, dev_logging = False\<rparr>))
                \<lparr>dev_active := True\<rparr>
             \<Longrightarrow> dev_logging (device (snd (act_seq (log_setter analyzer (PyBool True))
                                           (log_setter analyzer (PyBool False)) t)))
                 = dev_logging (device t)"
    by (simp add: log_setter_def analyzer_def seq_stub stub_send analyzer_step_def start_def)
  show ?thesis
    using analyze_without_log_keeps_logging [OF h] by (simp add: start_def)
qed

text \<open>
  The session does not restore logging by itself: a body that ends with logging
  switched on, on an instrument that had it off, leaves it on.
\<close>

lemma analyze_without_log_body_leaves_logging_on:
  "dev_logging (device (start \<lparr>dev_active = False, dev_logging = False\<rparr>)) = False
   \<and> dev_logging (device (snd (analyze analyzer
         (CommonConfig \<lparr>ch1 = Some Voltage, ch2 = None, ch3 = None\<rparr>) False
         (log_setter analyzer (PyBool True))
         (start \<lparr>dev_active = False, dev_logging = False\<rparr>)))) = True"
  by code_simp

text \<open>
  C6.  The claim says that a session with logging restores the logging state.  The
  getter of \<open>log\<close> returns the answer text, and the \<open>finally\<close> block passes that text to
  the setter, which sends \<open>1\<close> for every non-empty text: on an instrument with logging
  off (answer \<open>0\<close>) the session ends with logging on, while the active state is back
  to what it was.
\<close>

theorem analyze_log_leaves_logging_on:
  "analyze analyzer (CommonConfig \<lparr>ch1 = Some Voltage, ch2 = None, ch3 = None\<rparr>) True
     (act_return ()) (start \<lparr>dev_active = False, dev_logging = False\<rparr>)
   = (Inr (),
      \<lparr>wire = [Query '':ANALyzer:SAVE:STATe?'', Query '':ANALyzer:STATe?'',
               Send '':ANALyzer:TYPE COM'', Send '':ANALyzer:COMMon:MEASure:TYPE CH1_V'',
               Send '':ANALyzer:SAVE:STATe 1'', Send '':ANALyzer:STATe 1'',
               Send '':ANALyzer:STATe 0'', Send '':ANALyzer:SAVE:STATe 1''],
       device = \<lparr>dev_active = False, dev_logging = True\<rparr>\<rparr>)"
  by code_simp

section \<open>Attention sequence\<close>

text \<open>
  C9.  The claim says that \<open>look_at_me\<close> restores brightness and beeper on every exit
  path.  The method has no \<open>finally\<close>: when the transport raises on the first beep, the
  exception leaves the method at once, no restoring command is sent and the display stays
  at brightness 10 instead of 50.
\<close>

theorem look_at_me_leaves_display_dimmed:
  "look_at_me \<lparr>rigol_scpi = panel_stub '':SYSTem:BEEPer:IMMediate''\<rparr>
     (start \<lparr>dev_brightness = 50, dev_beeper = True\<rparr>)
   = (Inl (SCPIError '':SYSTem:BEEPer:IMMediate''),
      \<lparr>wire = [Query '':SYST:BRIG?'', Query '':SYST:BEEP?'', Send '':SYST:BRIG 100'',
               Send '':SYST:BRIG 10'', Send '':SYSTem:BEEPer:IMMediate''],
       device = \<lparr>dev_brightness = 10, dev_beeper = True\<rparr>\<rparr>)"
  by code_simp

section \<open>The getters of the analyzer\<close>

text \<open>
  C10.  Whatever text the transport answers, the getter of \<open>log\<close> returns that text as
  it is, while the getter of \<open>active\<close> returns whether the text is \<open>1\<close>.
\<close>

theorem log_getter_returns_response:
  assumes "on_query (scpi_client self) '':ANALyzer:SAVE:STATe?'' (device s) = (Inr r, d)"
    and "on_query (scpi_client self) '':ANALyzer:STATe?'' (device s) = (Inr r, d)"
  shows "fst (log_getter self s) = Inr r \<and> fst (active_getter self s) = Inr (r = ''1'')"
  using assms by (simp add: log_getter_def active_getter_def scpi_query_def act_defs)

theorem log_getter_returns_response_witness:
  "fst (log_getter \<lparr>scpi_client = canned (\<lambda>_. ''0'')\<rparr> (start ())) = Inr ''0''
   \<and> fst (active_getter \<lparr>scpi_client = canned (\<lambda>_. ''0'')\<rparr> (start ())) = Inr False"
  using log_getter_returns_response [of "\<lparr>scpi_client = canned (\<lambda>_. ''0'')\<rparr>" "start ()" "''0''" "()"]
  by (simp add: canned_def start_def)

end
